theory Spec2Isabelle
  imports Main "HOL-Library.AList"
begin

section \<open>JavaScript values\<close>

text \<open>
  The route handlers of \<^verbatim>\<open>server/routes.js\<close> work on JSON request bodies, on documents
  returned by the storage layer and on the session object. All of these are JavaScript
  values. An object is an association list from property names to values, in property
  order; a property that is absent reads as \<open>undefined\<close>. Numbers are the integers (the
  identifiers and counters of the routes) and \<open>NaN\<close>, the result of \<^verbatim>\<open>parseInt\<close> on text
  that does not start with a number. A \<^verbatim>\<open>Date\<close> is its time value in milliseconds.
  Strings are lists of ASCII characters.
\<close>

datatype jval =
    JUndefined
  | JNull
  | JBool bool
  | JNum int
  | JNaN
  | JStr string
  | JDate int
  | JArr "jval list"
  | JObj "(string \<times> jval) list"

type_synonym obj = "(string \<times> jval) list"

text \<open>Property read \<^verbatim>\<open>o.k\<close>: the value stored under \<open>k\<close>, or \<open>undefined\<close>.\<close>

definition get_prop :: "obj \<Rightarrow> string \<Rightarrow> jval" where
  "get_prop ob k = (case map_of ob k of None \<Rightarrow> JUndefined | Some v \<Rightarrow> v)"

text \<open>Whether an object has an own property \<open>k\<close>.\<close>

definition has_prop :: "obj \<Rightarrow> string \<Rightarrow> bool" where
  "has_prop ob k = (k \<in> fst ` set ob)"

text \<open>
  Truthiness, as tested by \<^verbatim>\<open>!x\<close>, \<^verbatim>\<open>x || y\<close> and \<^verbatim>\<open>x ? a : b\<close>: the falsy values
  are \<open>undefined\<close>, \<open>null\<close>, \<open>false\<close>, \<open>0\<close>, \<open>NaN\<close> and the empty string.
\<close>

fun truthy :: "jval \<Rightarrow> bool" where
  "truthy JUndefined = False"
| "truthy JNull = False"
| "truthy (JBool b) = b"
| "truthy (JNum n) = (n \<noteq> 0)"
| "truthy JNaN = False"
| "truthy (JStr s) = (s \<noteq> [])"
| "truthy (JDate t) = True"
| "truthy (JArr xs) = True"
| "truthy (JObj ob) = True"

text \<open>The operator \<^verbatim>\<open>a || b\<close> on values.\<close>

definition or_else :: "jval \<Rightarrow> jval \<Rightarrow> jval" where
  "or_else a b = (if truthy a then a else b)"

text \<open>
  Strict equality \<^verbatim>\<open>a === b\<close>. Primitive values are equal when they are the same value,
  except \<open>NaN\<close>, which equals nothing. Objects, arrays and dates are compared by reference;
  the two sides compared in the routes (a stored document's field and a field of the
  parsed request) are never the same reference.
\<close>

fun strict_eq :: "jval \<Rightarrow> jval \<Rightarrow> bool" where
  "strict_eq JNaN b = False"
| "strict_eq (JDate t) b = False"
| "strict_eq (JArr xs) b = False"
| "strict_eq (JObj ob) b = False"
| "strict_eq a b = (a = b)"

text \<open>\<^verbatim>\<open>xs.includes(v)\<close> for an array \<open>xs\<close> of string literals.\<close>

fun array_includes :: "string list \<Rightarrow> jval \<Rightarrow> bool" where
  "array_includes xs (JStr s) = (s \<in> set xs)"
| "array_includes xs v = False"

text \<open>
  The rest pattern \<^verbatim>\<open>const { password: _, ...userWithoutPassword } = user\<close>: every own
  property of \<open>user\<close> except \<open>password\<close>.
\<close>

definition without :: "string \<Rightarrow> obj \<Rightarrow> obj" where
  "without k ob = AList.delete k ob"

text \<open>An object literal \<^verbatim>\<open>{ ...ob, k: v }\<close>: \<open>k\<close> is overwritten in place or appended.\<close>

definition with_prop :: "obj \<Rightarrow> string \<Rightarrow> jval \<Rightarrow> obj" where
  "with_prop ob k v = AList.update k v ob"

subsection \<open>Strings and numbers\<close>

text \<open>\<^verbatim>\<open>String.prototype.toLowerCase\<close> and \<^verbatim>\<open>toUpperCase\<close> on ASCII text.\<close>

definition lower_char :: "char \<Rightarrow> char" where
  "lower_char c =
     (case map_of (zip ''ABCDEFGHIJKLMNOPQRSTUVWXYZ'' ''abcdefghijklmnopqrstuvwxyz'') c of
        None \<Rightarrow> c
      | Some l \<Rightarrow> l)"


definition toLowerCase :: "string \<Rightarrow> string" where
  "toLowerCase s = map lower_char s"


text \<open>
  \<^verbatim>\<open>parseInt(s)\<close> with no radix: leading white space is skipped, a sign is read, a
  \<^verbatim>\<open>0x\<close> prefix selects base sixteen, and the longest run of digits is the value; with no
  digit the result is \<open>NaN\<close>. Whatever follows the digits is ignored. The value is exact;
  JavaScript rounds integers from \<open>2^53\<close> on.
\<close>

definition is_space :: "char \<Rightarrow> bool" where
  "is_space c = (of_char c \<in> {9, 10, 11, 12, 13, 32 :: nat})"

definition digit_of :: "nat \<Rightarrow> char \<Rightarrow> nat option" where
  "digit_of radix c =
     (let n = (of_char c :: nat);
          d = (if 48 \<le> n \<and> n \<le> 57 then n - 48
               else if 97 \<le> n \<and> n \<le> 122 then n - 87
               else if 65 \<le> n \<and> n \<le> 90 then n - 55
               else radix)
      in if d < radix then Some d else None)"

fun read_digits :: "nat \<Rightarrow> nat option \<Rightarrow> string \<Rightarrow> nat option" where
  "read_digits radix acc [] = acc"
| "read_digits radix acc (c # cs) =
     (case digit_of radix c of
        None \<Rightarrow> acc
      | Some d \<Rightarrow> read_digits radix (Some ((case acc of None \<Rightarrow> 0 | Some a \<Rightarrow> a) * radix + d)) cs)"

definition strip_sign :: "string \<Rightarrow> bool \<times> string" where
  "strip_sign s =
     (case s of
        c # cs \<Rightarrow> if c = CHR ''-'' then (True, cs) else if c = CHR ''+'' then (False, cs) else (False, s)
      | [] \<Rightarrow> (False, s))"

definition strip_prefix :: "string \<Rightarrow> nat \<times> string" where
  "strip_prefix s =
     (case s of
        a # b # cs \<Rightarrow> if a = CHR ''0'' \<and> (b = CHR ''x'' \<or> b = CHR ''X'') then (16, cs) else (10, s)
      | _ \<Rightarrow> (10, s))"

definition parseInt :: "string \<Rightarrow> jval" where
  "parseInt s =
     (let (neg, t) = strip_sign (dropWhile is_space s);
          (radix, u) = strip_prefix t
      in case read_digits radix None u of
           None \<Rightarrow> JNaN
         | Some n \<Rightarrow> JNum (if neg then - int n else int n))"

section \<open>Requests, responses and the collaborators of the routes\<close>

text \<open>
  A response is the status passed to \<^verbatim>\<open>res.status\<close> (200 when the handler calls
  \<^verbatim>\<open>res.json\<close> directly) and the value passed to \<^verbatim>\<open>res.json\<close>.
\<close>

record response =
  res_status :: nat
  res_json :: jval

definition respond :: "nat \<Rightarrow> jval \<Rightarrow> response" where
  "respond c v = \<lparr>res_status = c, res_json = v\<rparr>"

definition message :: "string \<Rightarrow> jval" where
  "message m = JObj [(''message'', JStr m)]"

text \<open>A call into a collaborator either returns a value or throws an error with a message.\<close>

datatype 'a outcome = Throws string | Returns 'a

text \<open>
  The validators of \<^verbatim>\<open>shared/schema.js\<close> are missing from the sources; the routes
  only call their \<^verbatim>\<open>parse\<close>, which returns the validated object or throws. They are
  parameters of the handlers.
\<close>

record schemas =
  loginSchema :: "obj \<Rightarrow> obj outcome"
  registerSchema :: "obj \<Rightarrow> obj outcome"
  forgotPasswordSchema :: "obj \<Rightarrow> obj outcome"
  updateProfileSchema :: "obj \<Rightarrow> obj outcome"
  insertCaseSchema :: "obj \<Rightarrow> obj outcome"
  insertOBSchema :: "obj \<Rightarrow> obj outcome"
  insertLicensePlateSchema :: "obj \<Rightarrow> obj outcome"
  insertEvidenceSchema :: "obj \<Rightarrow> obj outcome"
  insertReportSchema :: "obj \<Rightarrow> obj outcome"
  insertPoliceVehicleSchema :: "obj \<Rightarrow> obj outcome"

text \<open>
  The \<^verbatim>\<open>storage\<close> object of \<^verbatim>\<open>server/db-config.js\<close> is missing from the sources
  as well. It is a parameter too: a record of the methods the routes call, each a function
  of the store's state \<open>'s\<close> that returns or throws and leaves a new state. A lookup
  returns a document or \<open>undefined\<close> (\<open>None\<close>).
\<close>

record 's storage =
  getUserByUsername :: "jval \<Rightarrow> 's \<Rightarrow> obj option outcome \<times> 's"
  getUserByEmail :: "jval \<Rightarrow> 's \<Rightarrow> obj option outcome \<times> 's"
  getUser :: "jval \<Rightarrow> 's \<Rightarrow> obj option outcome \<times> 's"
  getAllUsers :: "'s \<Rightarrow> obj list outcome \<times> 's"
  createUser :: "obj \<Rightarrow> 's \<Rightarrow> obj outcome \<times> 's"
  updateUser :: "jval \<Rightarrow> obj \<Rightarrow> 's \<Rightarrow> obj option outcome \<times> 's"
  updateLastLogin :: "jval \<Rightarrow> 's \<Rightarrow> unit outcome \<times> 's"
  deleteUser :: "jval \<Rightarrow> 's \<Rightarrow> unit outcome \<times> 's"
  createPasswordResetToken :: "jval \<Rightarrow> string \<Rightarrow> 's \<Rightarrow> unit outcome \<times> 's"
  createCase :: "obj \<Rightarrow> 's \<Rightarrow> obj outcome \<times> 's"
  updateCase :: "jval \<Rightarrow> obj \<Rightarrow> 's \<Rightarrow> obj option outcome \<times> 's"
  createLicensePlate :: "obj \<Rightarrow> 's \<Rightarrow> obj outcome \<times> 's"
  updateLicensePlate :: "jval \<Rightarrow> obj \<Rightarrow> 's \<Rightarrow> obj option outcome \<times> 's"
  updateEvidence :: "jval \<Rightarrow> obj \<Rightarrow> 's \<Rightarrow> obj option outcome \<times> 's"
  createGeofile :: "obj \<Rightarrow> 's \<Rightarrow> obj outcome \<times> 's"
  updateGeofile :: "jval \<Rightarrow> obj \<Rightarrow> 's \<Rightarrow> obj option outcome \<times> 's"
  createReport :: "obj \<Rightarrow> 's \<Rightarrow> obj outcome \<times> 's"
  updateReport :: "jval \<Rightarrow> obj \<Rightarrow> 's \<Rightarrow> obj option outcome \<times> 's"
  getPoliceVehicle :: "jval \<Rightarrow> 's \<Rightarrow> obj option outcome \<times> 's"
  updatePoliceVehicle :: "jval \<Rightarrow> obj \<Rightarrow> 's \<Rightarrow> obj option outcome \<times> 's"
  updateVehicleStatus :: "jval \<Rightarrow> jval \<Rightarrow> 's \<Rightarrow> obj option outcome \<times> 's"

text \<open>The value \<^verbatim>\<open>res.json\<close> sends for a document that may be \<open>undefined\<close>.\<close>

definition doc_json :: "obj option \<Rightarrow> jval" where
  "doc_json d = (case d of None \<Rightarrow> JUndefined | Some ob \<Rightarrow> JObj ob)"

section \<open>Authentication routes\<close>

text \<open>
  \<^verbatim>\<open>POST /api/auth/login\<close>. The handler takes the request body, the session of the
  request and the store, and leaves a response, the session and the store. The whole body
  of the handler is inside \<^verbatim>\<open>try\<close>: a throw of the validator or of the storage ends in
  400 "Invalid input".
\<close>

definition post_auth_login ::
  "schemas \<Rightarrow> 's storage \<Rightarrow> obj \<Rightarrow> obj \<Rightarrow> 's \<Rightarrow> response \<times> obj \<times> 's" where
  "post_auth_login V S body session st =
     (case loginSchema V body of
        Throws e \<Rightarrow> (respond 400 (message ''Invalid input''), session, st)
      | Returns cred \<Rightarrow>
          let username = get_prop cred ''username'';
              password = get_prop cred ''password''
          in (case getUserByUsername S username st of
                (Throws e, st1) \<Rightarrow> (respond 400 (message ''Invalid input''), session, st1)
              | (Returns None, st1) \<Rightarrow> (respond 401 (message ''Invalid credentials''), session, st1)
              | (Returns (Some user), st1) \<Rightarrow>
                  let isValidPassword =
                        (strict_eq (get_prop user ''password'') password \<or>
                         (strict_eq (get_prop user ''username'') (JStr ''admin'') \<and>
                          strict_eq password (JStr ''admin123'')))
                  in if \<not> isValidPassword
                     then (respond 401 (message ''Invalid credentials''), session, st1)
                     else if \<not> truthy (get_prop user ''isActive'')
                     then (respond 403 (message ''Account is deactivated''), session, st1)
                     else (case updateLastLogin S (get_prop user ''id'') st1 of
                             (Throws e, st2) \<Rightarrow>
                               (respond 400 (message ''Invalid input''), session, st2)
                           | (Returns u, st2) \<Rightarrow>
                               let session1 = with_prop session ''userId'' (get_prop user ''id'');
                                   session2 = with_prop session1 ''user'' (JObj user);
                                   userWithoutPassword = without ''password'' user
                               in (respond 200 (JObj [(''user'', JObj userWithoutPassword)]),
                                   session2, st2))))"

text \<open>\<^verbatim>\<open>POST /api/auth/register\<close>.\<close>

definition post_auth_register ::
  "schemas \<Rightarrow> 's storage \<Rightarrow> obj \<Rightarrow> 's \<Rightarrow> response \<times> 's" where
  "post_auth_register V S body st =
     (case registerSchema V body of
        Throws e \<Rightarrow> (respond 400 (message ''Invalid input''), st)
      | Returns userData \<Rightarrow>
          (case getUserByUsername S (get_prop userData ''username'') st of
             (Throws e, st1) \<Rightarrow> (respond 400 (message ''Invalid input''), st1)
           | (Returns (Some existingUser), st1) \<Rightarrow>
               (respond 409 (message ''Username already exists''), st1)
           | (Returns None, st1) \<Rightarrow>
               (case getUserByEmail S (get_prop userData ''email'') st1 of
                  (Throws e, st2) \<Rightarrow> (respond 400 (message ''Invalid input''), st2)
                | (Returns (Some existingEmail), st2) \<Rightarrow>
                    (respond 409 (message ''Email already exists''), st2)
                | (Returns None, st2) \<Rightarrow>
                    let userToCreate = without ''confirmPassword'' userData
                    in (case createUser S userToCreate st2 of
                          (Throws e, st3) \<Rightarrow> (respond 400 (message ''Invalid input''), st3)
                        | (Returns newUser, st3) \<Rightarrow>
                            let userWithoutPassword = without ''password'' newUser
                            in (respond 201 (JObj [(''user'', JObj userWithoutPassword)]), st3)))))"

text \<open>
  \<^verbatim>\<open>POST /api/auth/forgot-password\<close>. The argument \<open>token\<close> is the value of
  \<^verbatim>\<open>randomBytes(32).toString('hex')\<close> drawn by the request.
\<close>

definition post_auth_forgot_password ::
  "schemas \<Rightarrow> 's storage \<Rightarrow> string \<Rightarrow> obj \<Rightarrow> 's \<Rightarrow> response \<times> 's" where
  "post_auth_forgot_password V S token body st =
     (case forgotPasswordSchema V body of
        Throws e \<Rightarrow> (respond 400 (message ''Invalid input''), st)
      | Returns parsed \<Rightarrow>
          (case getUserByUsername S (get_prop parsed ''username'') st of
             (Throws e, st1) \<Rightarrow> (respond 400 (message ''Invalid input''), st1)
           | (Returns None, st1) \<Rightarrow>
               (respond 200 (message ''If the username exists, a reset token has been generated''), st1)
           | (Returns (Some user), st1) \<Rightarrow>
               (case createPasswordResetToken S (get_prop user ''id'') token st1 of
                  (Throws e, st2) \<Rightarrow> (respond 400 (message ''Invalid input''), st2)
                | (Returns u, st2) \<Rightarrow>
                    (respond 200 (JObj [(''message'', JStr ''Password reset token generated''),
                                        (''token'', JStr token)]), st2))))"

text \<open>
  \<^verbatim>\<open>GET /api/auth/me\<close>. The handler has no \<^verbatim>\<open>try\<close>: when the storage throws, the
  handler sends no response (\<open>None\<close>).
\<close>

definition get_auth_me :: "'s storage \<Rightarrow> obj \<Rightarrow> 's \<Rightarrow> response option \<times> 's" where
  "get_auth_me S session st =
     (let userId = or_else (get_prop session ''userId'') (JNum 1)
      in case getUser S userId st of
           (Throws e, st1) \<Rightarrow> (None, st1)
         | (Returns None, st1) \<Rightarrow> (Some (respond 404 (message ''User not found'')), st1)
         | (Returns (Some user), st1) \<Rightarrow>
             let userWithoutPassword = without ''password'' user
             in (Some (respond 200 (JObj [(''user'', JObj userWithoutPassword)])), st1))"

section \<open>Profile and user management routes\<close>

text \<open>
  \<^verbatim>\<open>PUT /api/profile\<close>. Destructuring an \<open>undefined\<close> result of \<^verbatim>\<open>updateUser\<close> throws
  inside the \<^verbatim>\<open>try\<close>, which ends in 400.
\<close>

definition put_profile ::
  "schemas \<Rightarrow> 's storage \<Rightarrow> obj \<Rightarrow> obj \<Rightarrow> 's \<Rightarrow> response \<times> 's" where
  "put_profile V S body session st =
     (case updateProfileSchema V body of
        Throws e \<Rightarrow> (respond 400 (message ''Invalid input''), st)
      | Returns updates \<Rightarrow>
          let userId = or_else (get_prop session ''userId'') (JNum 1)
          in (case updateUser S userId updates st of
                (Throws e, st1) \<Rightarrow> (respond 400 (message ''Invalid input''), st1)
              | (Returns None, st1) \<Rightarrow> (respond 400 (message ''Invalid input''), st1)
              | (Returns (Some updatedUser), st1) \<Rightarrow>
                  let userWithoutPassword = without ''password'' updatedUser
                  in (respond 200 (JObj [(''user'', JObj userWithoutPassword)]), st1)))"

text \<open>\<^verbatim>\<open>GET /api/users\<close>, also without \<^verbatim>\<open>try\<close>.\<close>

definition get_users :: "'s storage \<Rightarrow> 's \<Rightarrow> response option \<times> 's" where
  "get_users S st =
     (case getAllUsers S st of
        (Throws e, st1) \<Rightarrow> (None, st1)
      | (Returns users, st1) \<Rightarrow>
          let usersWithoutPasswords = map (\<lambda>user. without ''password'' user) users
          in (Some (respond 200 (JObj [(''users'', JArr (map JObj usersWithoutPasswords))])), st1))"

text \<open>\<^verbatim>\<open>DELETE /api/users/:id\<close>; \<open>id\<close> is the text of the route parameter.\<close>

definition delete_user :: "'s storage \<Rightarrow> string \<Rightarrow> 's \<Rightarrow> response \<times> 's" where
  "delete_user S id_param st =
     (let userId = parseInt id_param
      in if strict_eq userId (JNum 1)
         then (respond 400 (message ''Cannot delete admin account''), st)
         else case deleteUser S userId st of
                (Returns u, st1) \<Rightarrow> (respond 200 (message ''User deleted successfully''), st1)
              | (Throws e, st1) \<Rightarrow> (respond 404 (message ''User not found''), st1))"

section \<open>Case, licence plate, evidence and report routes\<close>

text \<open>\<^verbatim>\<open>POST /api/cases\<close> and \<^verbatim>\<open>PUT /api/cases/:id\<close>.\<close>

definition post_cases :: "schemas \<Rightarrow> 's storage \<Rightarrow> obj \<Rightarrow> 's \<Rightarrow> response \<times> 's" where
  "post_cases V S body st =
     (case insertCaseSchema V body of
        Throws e \<Rightarrow> (respond 400 (message ''Invalid input''), st)
      | Returns caseData \<Rightarrow>
          (case createCase S (with_prop caseData ''createdById'' (JNum 1)) st of
             (Throws e, st1) \<Rightarrow> (respond 400 (message ''Invalid input''), st1)
           | (Returns newCase, st1) \<Rightarrow> (respond 201 (JObj [(''case'', JObj newCase)]), st1)))"


text \<open>\<^verbatim>\<open>POST /api/license-plates\<close> and \<^verbatim>\<open>PUT /api/license-plates/:id\<close>.\<close>

definition post_license_plates ::
  "schemas \<Rightarrow> 's storage \<Rightarrow> obj \<Rightarrow> 's \<Rightarrow> response \<times> 's" where
  "post_license_plates V S body st =
     (case insertLicensePlateSchema V body of
        Throws e \<Rightarrow> (respond 400 (message ''Invalid input''), st)
      | Returns plateData \<Rightarrow>
          (case createLicensePlate S (with_prop plateData ''addedById'' (JNum 1)) st of
             (Throws e, st1) \<Rightarrow> (respond 400 (message ''Invalid input''), st1)
           | (Returns newPlate, st1) \<Rightarrow>
               (respond 201 (JObj [(''licensePlate'', JObj newPlate)]), st1)))"



text \<open>\<^verbatim>\<open>POST /api/reports\<close> and \<^verbatim>\<open>PUT /api/reports/:id\<close>.\<close>

definition post_reports :: "schemas \<Rightarrow> 's storage \<Rightarrow> obj \<Rightarrow> 's \<Rightarrow> response \<times> 's" where
  "post_reports V S body st =
     (case insertReportSchema V body of
        Throws e \<Rightarrow> (respond 400 (message ''Invalid report data''), st)
      | Returns reportData \<Rightarrow>
          (case createReport S (with_prop reportData ''requestedBy'' (JNum 1)) st of
             (Throws e, st1) \<Rightarrow> (respond 400 (message ''Invalid report data''), st1)
           | (Returns newReport, st1) \<Rightarrow> (respond 201 (JObj newReport), st1)))"


section \<open>Geofile routes\<close>


definition allowedTypes :: "string list" where
  "allowedTypes = [''kml'', ''gpx'', ''shp'', ''geojson'', ''kmz'', ''gml'', ''other'']"



section \<open>Police vehicle routes\<close>

text \<open>\<^verbatim>\<open>GET /api/police-vehicles/:id\<close>.\<close>

definition get_police_vehicle :: "'s storage \<Rightarrow> string \<Rightarrow> 's \<Rightarrow> response \<times> 's" where
  "get_police_vehicle S id_param st =
     (case getPoliceVehicle S (parseInt id_param) st of
        (Throws e, st1) \<Rightarrow> (respond 500 (message ''Failed to fetch police vehicle''), st1)
      | (Returns None, st1) \<Rightarrow> (respond 404 (message ''Police vehicle not found''), st1)
      | (Returns (Some vehicle), st1) \<Rightarrow> (respond 200 (JObj vehicle), st1))"


text \<open>\<^verbatim>\<open>PATCH /api/police-vehicles/:id/status\<close>.\<close>

definition vehicle_statuses :: "string list" where
  "vehicle_statuses = [''available'', ''on_patrol'', ''responding'', ''out_of_service'']"

definition patch_police_vehicle_status ::
  "'s storage \<Rightarrow> string \<Rightarrow> obj \<Rightarrow> 's \<Rightarrow> response \<times> 's" where
  "patch_police_vehicle_status S id_param body st =
     (let status = get_prop body ''status''
      in if \<not> truthy status \<or> \<not> array_includes vehicle_statuses status
         then (respond 400 (message
                 ''Invalid status. Must be one of: available, on_patrol, responding, out_of_service''), st)
         else (case updateVehicleStatus S (parseInt id_param) status st of
                 (Throws e, st1) \<Rightarrow> (respond 400 (message ''Failed to update vehicle status''), st1)
               | (Returns updatedVehicle, st1) \<Rightarrow> (respond 200 (doc_json updatedVehicle), st1)))"

section \<open>Occurrence book routes\<close>

text \<open>
  The OB routes call \<^verbatim>\<open>OBEntriesCRUD\<close> of \<^verbatim>\<open>server/mongodb-crud.js\<close>, which is missing
  from the sources and is a parameter like the storage. Its documents carry the
  database's object identifier \<^verbatim>\<open>_id\<close>, which is not a JSON value: a document is the text
  \<^verbatim>\<open>_id.toString()\<close> gives and the object of its other fields.
\<close>

record ob_document =
  oid :: string
  doc_fields :: obj


















section \<open>The resource store of the specification\<close>

text \<open>
  Modelled from the spec: the Resource Store, whose code (\<^verbatim>\<open>server/db-config.js\<close>, the
  \<^verbatim>\<open>storage\<close> object) is missing from the sources. The specification gives it "one
  logical collection per resource type".
\<close>

datatype resource =
  Users | Tokens | Cases | LicensePlates | Evidence | Geofiles | Reports | Vehicles

text \<open>
  Modelled from the spec: the state of the missing Resource Store: the collections, each
  in insertion order, the next identifier to assign, and the store's clock, from which
  the timestamps \<open>createdAt\<close> and \<open>updatedAt\<close> are read. The OB entries are kept with
  their object identifiers.
\<close>

record store =
  docs :: "resource \<Rightarrow> obj list"
  obDocs :: "ob_document list"
  nextId :: int
  clock :: int

text \<open>
  Modelled from the spec: the lookup of the missing store, "\<open>getById(id)\<close>: returns the
  stored form or a not-found signal", here by any field (users are also looked up by
  their unique username and email).
\<close>

definition find_by :: "string \<Rightarrow> jval \<Rightarrow> obj list \<Rightarrow> obj option" where
  "find_by k v ds = find (\<lambda>d. strict_eq (get_prop d k) v) ds"

text \<open>
  Modelled from the spec: what the missing \<open>create\<close> stores, "assigns identifier and
  creation timestamp", with "\<open>updatedAt\<close> initially equal to \<open>createdAt\<close>".
\<close>

definition stamp_new :: "int \<Rightarrow> int \<Rightarrow> obj \<Rightarrow> obj" where
  "stamp_new n t input =
     with_prop (with_prop (with_prop input ''id'' (JNum n)) ''createdAt'' (JDate t))
       ''updatedAt'' (JDate t)"

text \<open>
  Modelled from the spec: the merge of the missing \<open>update\<close>, "merges or replaces mutable
  fields"; the identifier and \<open>createdAt\<close> "never change".
\<close>

definition merge_fields :: "obj \<Rightarrow> obj \<Rightarrow> obj" where
  "merge_fields d updates =
     foldl (\<lambda>acc (k, v). if k = ''id'' \<or> k = ''createdAt'' then acc else with_prop acc k v)
       d updates"

text \<open>
  Modelled from the spec: the missing store's replacement of the document with a given
  identifier.
\<close>

definition replace_doc :: "jval \<Rightarrow> obj \<Rightarrow> obj list \<Rightarrow> obj list" where
  "replace_doc idv d' ds = map (\<lambda>d. if strict_eq (get_prop d ''id'') idv then d' else d) ds"

text \<open>Modelled from the spec: the missing \<open>getById\<close> of a collection.\<close>

definition store_get :: "resource \<Rightarrow> jval \<Rightarrow> store \<Rightarrow> obj option outcome \<times> store" where
  "store_get r idv st = (Returns (find_by ''id'' idv (docs st r)), st)"

text \<open>
  Modelled from the spec: the missing \<open>list\<close>, "returns the full collection in
  store-native order", taken as insertion order.
\<close>

definition store_list :: "resource \<Rightarrow> store \<Rightarrow> obj list outcome \<times> store" where
  "store_list r st = (Returns (docs st r), st)"

text \<open>
  Modelled from the spec: the missing \<open>create(input)\<close>, "assigns identifier and creation
  timestamp, persists, returns the stored form". The timestamp is the next reading of the
  store's clock, which moves with every write.
\<close>

definition store_create :: "resource \<Rightarrow> obj \<Rightarrow> store \<Rightarrow> obj outcome \<times> store" where
  "store_create r input st =
     (let t = clock st + 1;
          d = stamp_new (nextId st) t input
      in (Returns d,
          st\<lparr>docs := (docs st)(r := docs st r @ [d]), nextId := nextId st + 1, clock := t\<rparr>))"

text \<open>
  Modelled from the spec: the timestamp the missing \<open>update\<close> writes, "refreshes
  \<open>updatedAt\<close> to a value strictly greater than the prior value": the next reading of the
  store's clock, taken past the \<open>updatedAt\<close> of the document where the clock is behind it.
\<close>

definition next_stamp :: "store \<Rightarrow> obj \<Rightarrow> int" where
  "next_stamp st d =
     (case get_prop d ''updatedAt'' of
        JDate t0 \<Rightarrow> max (clock st) t0 + 1
      | _ \<Rightarrow> clock st + 1)"

text \<open>
  Modelled from the spec: the missing \<open>update(id, partialOrFull)\<close>, "merges or replaces
  mutable fields, refreshes \<open>updatedAt\<close>, fails with not-found if the identifier is
  absent".
\<close>

definition store_update ::
  "resource \<Rightarrow> jval \<Rightarrow> obj \<Rightarrow> store \<Rightarrow> obj option outcome \<times> store" where
  "store_update r idv updates st =
     (case find_by ''id'' idv (docs st r) of
        None \<Rightarrow> (Throws ''not found'', st)
      | Some d \<Rightarrow>
          let t = next_stamp st d;
              d' = with_prop (merge_fields d updates) ''updatedAt'' (JDate t)
          in (Returns (Some d'),
              st\<lparr>docs := (docs st)(r := replace_doc idv d' (docs st r)), clock := t\<rparr>))"

text \<open>
  Modelled from the spec: the missing \<open>delete(id)\<close>, "removes permanently, fails with
  not-found if absent".
\<close>

definition store_delete :: "resource \<Rightarrow> jval \<Rightarrow> store \<Rightarrow> unit outcome \<times> store" where
  "store_delete r idv st =
     (case find_by ''id'' idv (docs st r) of
        None \<Rightarrow> (Throws ''not found'', st)
      | Some d \<Rightarrow>
          (Returns (),
           st\<lparr>docs := (docs st)
                  (r := filter (\<lambda>x. \<not> strict_eq (get_prop x ''id'') idv) (docs st r))\<rparr>))"

text \<open>
  Modelled from the spec: the missing derived operation "\<open>touchTimestamp(id, field)\<close>
  for geofile/user last-accessed or last-login".
\<close>

definition store_touch :: "resource \<Rightarrow> jval \<Rightarrow> string \<Rightarrow> store \<Rightarrow> unit outcome \<times> store" where
  "store_touch r idv k st =
     (let t = clock st + 1
      in (Returns (),
          st\<lparr>docs := (docs st)
                 (r := map (\<lambda>d. if strict_eq (get_prop d ''id'') idv
                                 then with_prop d k (JDate t) else d) (docs st r)),
             clock := t\<rparr>))"

text \<open>
  Modelled from the spec: the missing \<^verbatim>\<open>createGeofile\<close>. The specification has the
  geofile's "fileType (enum: kml|gpx|shp|geojson|kmz|gml|other, validated
  case-insensitively)", "enum fields must be one of the declared literal set or the write
  is rejected", and for a created geofile "the stored/returned fileType is the canonical
  lowercase form". The declared set is the list \<open>allowedTypes\<close> of the route.
\<close>

definition store_create_geofile :: "obj \<Rightarrow> store \<Rightarrow> obj outcome \<times> store" where
  "store_create_geofile input st =
     (case get_prop input ''fileType'' of
        JStr s \<Rightarrow>
          if toLowerCase s \<in> set allowedTypes
          then store_create Geofiles (with_prop input ''fileType'' (JStr (toLowerCase s))) st
          else (Throws ''fileType is not one of the declared set'', st)
      | _ \<Rightarrow> (Throws ''fileType is not one of the declared set'', st))"

text \<open>
  Modelled from the spec: the missing \<^verbatim>\<open>storage\<close> object, each method the operation of
  the Resource Store on its collection. A reset token is stored with the user it belongs
  to; the status of a vehicle is mutated directly ("vehicles support direct
  location/status mutation without a full update").
\<close>

definition spec_storage :: "store storage" where
  "spec_storage =
     \<lparr>getUserByUsername = (\<lambda>username st. (Returns (find_by ''username'' username (docs st Users)), st)),
      getUserByEmail = (\<lambda>email st. (Returns (find_by ''email'' email (docs st Users)), st)),
      getUser = store_get Users,
      getAllUsers = store_list Users,
      createUser = store_create Users,
      updateUser = store_update Users,
      updateLastLogin = (\<lambda>idv. store_touch Users idv ''lastLogin''),
      deleteUser = store_delete Users,
      createPasswordResetToken =
        (\<lambda>userId token st.
           (Returns (),
            st\<lparr>docs := (docs st)
                   (Tokens := docs st Tokens @ [[(''userId'', userId), (''token'', JStr token)]])\<rparr>)),
      createCase = store_create Cases,
      updateCase = store_update Cases,
      createLicensePlate = store_create LicensePlates,
      updateLicensePlate = store_update LicensePlates,
      updateEvidence = store_update Evidence,
      createGeofile = store_create_geofile,
      updateGeofile = store_update Geofiles,
      createReport = store_create Reports,
      updateReport = store_update Reports,
      getPoliceVehicle = store_get Vehicles,
      updatePoliceVehicle = store_update Vehicles,
      updateVehicleStatus = (\<lambda>idv status. store_update Vehicles idv [(''status'', status)])\<rparr>"


text \<open>
  Validators that accept every object as it is, for running the routes on concrete
  requests.
\<close>

definition accept_all :: schemas where
  "accept_all =
     \<lparr>loginSchema = Returns, registerSchema = Returns, forgotPasswordSchema = Returns,
      updateProfileSchema = Returns, insertCaseSchema = Returns, insertOBSchema = Returns,
      insertLicensePlateSchema = Returns, insertEvidenceSchema = Returns,
      insertReportSchema = Returns, insertPoliceVehicleSchema = Returns\<rparr>"







section \<open>A small store to run the routes on\<close>

text \<open>
  Two users: the administrator with identifier 1, whose password is no longer the seeded
  \<^verbatim>\<open>admin123\<close> of \<^verbatim>\<open>seedDevAdmin\<close>, and an officer.
\<close>

definition admin_user :: obj where
  "admin_user =
     [(''id'', JNum 1), (''username'', JStr ''admin''), (''email'', JStr ''admin@police.gov''),
      (''password'', JStr ''Rotated-2025''), (''role'', JStr ''admin''), (''isActive'', JBool True),
      (''createdAt'', JDate 5), (''updatedAt'', JDate 5)]"

definition officer_user :: obj where
  "officer_user =
     [(''id'', JNum 2), (''username'', JStr ''jdoe''), (''email'', JStr ''jdoe@police.gov''),
      (''password'', JStr ''hunter2''), (''role'', JStr ''user''), (''isActive'', JBool True),
      (''createdAt'', JDate 7), (''updatedAt'', JDate 8)]"

definition demo_store :: store where
  "demo_store =
     \<lparr>docs = (\<lambda>r. [])(Users := [admin_user, officer_user]), obDocs = [], nextId = 3, clock = 10\<rparr>"

text \<open>A success response: a status from 200 to 299.\<close>

definition is_success :: "response \<Rightarrow> bool" where
  "is_success r = (200 \<le> res_status r \<and> res_status r < 300)"

text \<open>Property read on a value that may be an object, for reading response bodies.\<close>

definition json_prop :: "jval \<Rightarrow> string \<Rightarrow> jval" where
  "json_prop v k = (case v of JObj ob \<Rightarrow> get_prop ob k | _ \<Rightarrow> JUndefined)"

text \<open>A store with one police vehicle.\<close>

definition patrol_car :: obj where
  "patrol_car =
     [(''id'', JNum 4), (''vehicleId'', JStr ''PV-104''), (''status'', JStr ''available''),
      (''createdAt'', JDate 9), (''updatedAt'', JDate 9)]"

definition fleet_store :: store where
  "fleet_store =
     \<lparr>docs = (\<lambda>r. [])(Users := [admin_user], Vehicles := [patrol_car]), obDocs = [],
      nextId = 5, clock = 10\<rparr>"











section \<open>Properties of the values\<close>

lemmas demo_simps = spec_storage_def accept_all_def demo_store_def admin_user_def officer_user_def
  find_by_def get_prop_def with_prop_def without_def respond_def message_def store_touch_def
  store_get_def store_list_def store_create_def store_update_def store_delete_def next_stamp_def

lemma without_removes: "\<not> has_prop (without k ob) k"
  by (simp add: has_prop_def without_def AList.delete_notin_dom)

lemma strict_eq_num: "strict_eq a (JNum n) = (a = JNum n)"
  by (cases a) auto

lemmas parse_simps = parseInt_def strip_sign_def strip_prefix_def is_space_def digit_of_def

subsection \<open>Objects and the store of the specification\<close>

lemma get_prop_with_prop:
  "get_prop (with_prop ob k v) k' = (if k' = k then v else get_prop ob k')"
  by (simp add: get_prop_def with_prop_def update_conv')

lemma get_prop_stamp_new:
  "k \<noteq> ''id'' \<Longrightarrow> k \<noteq> ''createdAt'' \<Longrightarrow> k \<noteq> ''updatedAt'' \<Longrightarrow>
   get_prop (stamp_new n t input) k = get_prop input k"
  by (simp add: stamp_new_def get_prop_with_prop)

lemma merge_fields_snoc:
  "merge_fields d (us @ [(k, v)]) =
     (if k = ''id'' \<or> k = ''createdAt'' then merge_fields d us else with_prop (merge_fields d us) k v)"
  by (simp add: merge_fields_def)

lemma get_prop_merge_keep:
  "k = ''id'' \<or> k = ''createdAt'' \<or> k \<notin> fst ` set us \<Longrightarrow>
   get_prop (merge_fields d us) k = get_prop d k"
proof (induction us rule: rev_induct)
  case Nil
  show ?case by (simp add: merge_fields_def)
next
  case (snoc x us)
  obtain k' v' where x: "x = (k', v')" by (cases x)
  from snoc.prems x have keep: "k = ''id'' \<or> k = ''createdAt'' \<or> k \<notin> fst ` set us"
    by auto
  from snoc.prems x have "k' = ''id'' \<or> k' = ''createdAt'' \<or> k \<noteq> k'"
    by auto
  then show ?case
    using snoc.IH[OF keep] x by (auto simp: merge_fields_snoc get_prop_with_prop)
qed


lemma find_by_holds: "find_by k v ds = Some d \<Longrightarrow> strict_eq (get_prop d k) v"
  by (auto simp: find_by_def find_Some_iff)

lemma find_by_replace:
  "find_by ''id'' idv ds = Some d \<Longrightarrow> strict_eq (get_prop d' ''id'') idv \<Longrightarrow>
   find_by ''id'' idv (replace_doc idv d' ds) = Some d'"
  by (induction ds) (auto simp: find_by_def replace_doc_def split: if_splits)



lemma store_update_found:
  assumes "find_by ''id'' idv (docs st r) = Some d"
  shows "store_update r idv us st =
           (Returns (Some (with_prop (merge_fields d us) ''updatedAt'' (JDate (next_stamp st d)))),
            st\<lparr>docs := (docs st)
                   (r := replace_doc idv
                           (with_prop (merge_fields d us) ''updatedAt'' (JDate (next_stamp st d)))
                           (docs st r)),
               clock := next_stamp st d\<rparr>)"
  using assms by (simp add: store_update_def Let_def)

lemma store_update_lookup:
  assumes "find_by ''id'' idv (docs st r) = Some d"
  shows "find_by ''id'' idv (docs (snd (store_update r idv us st)) r) =
           Some (with_prop (merge_fields d us) ''updatedAt'' (JDate (next_stamp st d)))"
proof -
  have "strict_eq (get_prop d ''id'') idv"
    using assms by (rule find_by_holds)
  then have "strict_eq (get_prop (with_prop (merge_fields d us) ''updatedAt''
                 (JDate (next_stamp st d))) ''id'') idv"
    by (simp add: get_prop_with_prop get_prop_merge_keep)
  with assms show ?thesis
    by (simp add: store_update_found find_by_replace)
qed




lemma status_nonempty: "s \<in> set vehicle_statuses \<Longrightarrow> s \<noteq> []"
  by (auto simp: vehicle_statuses_def)











subsection \<open>Occurrence book entries\<close>

lemma missing_is_falsy: "\<not> has_prop ob k \<Longrightarrow> \<not> truthy (get_prop ob k)"
  by (simp add: has_prop_def get_prop_def map_of_eq_None_iff[THEN iffD2])









section \<open>Login\<close>

text \<open>
  Claim C1, as the code has it. A login whose password differs from the stored password of
  the user found for the username is answered with 401 "Invalid credentials" and leaves the
  session as it was, unless the user's name is \<^verbatim>\<open>admin\<close> and the password sent is
  \<^verbatim>\<open>admin123\<close>: the handler accepts that pair whatever the stored password is.
\<close>

theorem login_wrong_password_rejected:
  assumes "loginSchema V body = Returns cred"
    and "getUserByUsername S (get_prop cred ''username'') st = (Returns (Some user), st1)"
    and "\<not> strict_eq (get_prop user ''password'') (get_prop cred ''password'')"
    and "\<not> (strict_eq (get_prop user ''username'') (JStr ''admin'') \<and>
            strict_eq (get_prop cred ''password'') (JStr ''admin123''))"
  shows "post_auth_login V S body session st =
           (respond 401 (message ''Invalid credentials''), session, st1)"
  using assms by (simp add: post_auth_login_def Let_def)

text \<open>The officer's login with a wrong password is rejected.\<close>

theorem login_wrong_password_rejected_witness:
  "post_auth_login accept_all spec_storage
     [(''username'', JStr ''jdoe''), (''password'', JStr ''admin123'')] [] demo_store =
   (respond 401 (message ''Invalid credentials''), [], demo_store)"
  by (rule login_wrong_password_rejected
        [where cred = "[(''username'', JStr ''jdoe''), (''password'', JStr ''admin123'')]"
           and user = officer_user])
     (simp_all add: demo_simps)

text \<open>
  Claim C1 as stated fails for the administrator: the stored password is not
  \<^verbatim>\<open>admin123\<close>, yet the login with \<^verbatim>\<open>admin123\<close> is answered with 200 and the session
  carries the administrator's identifier.
\<close>

theorem login_admin_bypass_counterexample:
  "getUserByUsername spec_storage (JStr ''admin'') demo_store = (Returns (Some admin_user), demo_store)
   \<and> \<not> strict_eq (get_prop admin_user ''password'') (JStr ''admin123'')
   \<and> res_status (fst (post_auth_login accept_all spec_storage
        [(''username'', JStr ''admin''), (''password'', JStr ''admin123'')] [] demo_store)) = 200
   \<and> get_prop (fst (snd (post_auth_login accept_all spec_storage
        [(''username'', JStr ''admin''), (''password'', JStr ''admin123'')] [] demo_store)))
        ''userId'' = JNum 1"
  by (simp add: demo_simps post_auth_login_def Let_def)

section \<open>Password reset request\<close>

text \<open>
  Claim C2 does not hold of the code. Whenever one request names a username the store
  finds and another names a username it does not find, the two responses of
  \<^verbatim>\<open>POST /api/auth/forgot-password\<close> differ, whatever tokens are drawn: the first is
  "Password reset token generated" with the token (or 400 when the token cannot be
  stored), the second the message "If the username exists, a reset token has been
  generated".
\<close>

theorem forgot_password_reveals_existence:
  assumes "forgotPasswordSchema V body1 = Returns p1"
    and "forgotPasswordSchema V body2 = Returns p2"
    and "getUserByUsername S (get_prop p1 ''username'') st = (Returns (Some user), st1)"
    and "getUserByUsername S (get_prop p2 ''username'') st = (Returns None, st2)"
  shows "fst (post_auth_forgot_password V S token1 body1 st) \<noteq>
         fst (post_auth_forgot_password V S token2 body2 st)"
  using assms
  by (auto simp: post_auth_forgot_password_def respond_def message_def
           split: prod.splits outcome.splits)

text \<open>The two responses for the administrator's name and for an unknown name.\<close>

theorem forgot_password_reveals_existence_witness:
  "fst (post_auth_forgot_password accept_all spec_storage ''9f3c'' [(''username'', JStr ''admin'')] demo_store)
     = respond 200 (JObj [(''message'', JStr ''Password reset token generated''), (''token'', JStr ''9f3c'')])
   \<and> fst (post_auth_forgot_password accept_all spec_storage ''9f3c'' [(''username'', JStr ''nobody'')] demo_store)
     = respond 200 (message ''If the username exists, a reset token has been generated'')
   \<and> fst (post_auth_forgot_password accept_all spec_storage ''9f3c'' [(''username'', JStr ''admin'')] demo_store)
     \<noteq> fst (post_auth_forgot_password accept_all spec_storage ''9f3c'' [(''username'', JStr ''nobody'')] demo_store)"
proof -
  have found: "getUserByUsername spec_storage (get_prop [(''username'', JStr ''admin'')] ''username'') demo_store
      = (Returns (Some admin_user), demo_store)"
    by (simp add: demo_simps)
  have missing: "getUserByUsername spec_storage (get_prop [(''username'', JStr ''nobody'')] ''username'') demo_store
      = (Returns None, demo_store)"
    by (simp add: demo_simps)
  have p1: "forgotPasswordSchema accept_all [(''username'', JStr ''admin'')] = Returns [(''username'', JStr ''admin'')]"
    by (simp add: accept_all_def)
  have p2: "forgotPasswordSchema accept_all [(''username'', JStr ''nobody'')] = Returns [(''username'', JStr ''nobody'')]"
    by (simp add: accept_all_def)
  note differ = forgot_password_reveals_existence[OF p1 p2 found missing, of "''9f3c''" "''9f3c''"]
  show ?thesis
    using differ by (simp add: demo_simps post_auth_forgot_password_def)
qed

section \<open>No password in a response\<close>

text \<open>
  Claim C3. Every success response of \<^verbatim>\<open>POST /api/auth/login\<close>,
  \<^verbatim>\<open>POST /api/auth/register\<close>, \<^verbatim>\<open>GET /api/auth/me\<close> and \<^verbatim>\<open>PUT /api/profile\<close> is an
  object \<open>{user: u}\<close> where \<open>u\<close> has no \<open>password\<close> property, and every success response
  of \<^verbatim>\<open>GET /api/users\<close> is \<open>{users: us}\<close> where no element of \<open>us\<close> has one. This holds
  for every validator and every storage.
\<close>

theorem success_responses_have_no_password:
  "(is_success (fst (post_auth_login V S body session st)) \<longrightarrow>
      (\<exists>u. res_json (fst (post_auth_login V S body session st)) = JObj [(''user'', JObj u)]
           \<and> \<not> has_prop u ''password''))
   \<and> (is_success (fst (post_auth_register V S body st)) \<longrightarrow>
      (\<exists>u. res_json (fst (post_auth_register V S body st)) = JObj [(''user'', JObj u)]
           \<and> \<not> has_prop u ''password''))
   \<and> (\<forall>r. fst (get_auth_me S session st) = Some r \<longrightarrow> is_success r \<longrightarrow>
      (\<exists>u. res_json r = JObj [(''user'', JObj u)] \<and> \<not> has_prop u ''password''))
   \<and> (is_success (fst (put_profile V S body session st)) \<longrightarrow>
      (\<exists>u. res_json (fst (put_profile V S body session st)) = JObj [(''user'', JObj u)]
           \<and> \<not> has_prop u ''password''))
   \<and> (\<forall>r. fst (get_users S st) = Some r \<longrightarrow> is_success r \<longrightarrow>
      (\<exists>us. res_json r = JObj [(''users'', JArr (map JObj us))]
            \<and> (\<forall>u \<in> set us. \<not> has_prop u ''password'')))"
proof (intro conjI)
  show "is_success (fst (post_auth_login V S body session st)) \<longrightarrow>
      (\<exists>u. res_json (fst (post_auth_login V S body session st)) = JObj [(''user'', JObj u)]
           \<and> \<not> has_prop u ''password'')"
    by (auto simp: post_auth_login_def is_success_def respond_def Let_def without_removes
             split: prod.splits outcome.splits option.splits)
  show "is_success (fst (post_auth_register V S body st)) \<longrightarrow>
      (\<exists>u. res_json (fst (post_auth_register V S body st)) = JObj [(''user'', JObj u)]
           \<and> \<not> has_prop u ''password'')"
    by (auto simp: post_auth_register_def is_success_def respond_def Let_def without_removes
             split: prod.splits outcome.splits option.splits)
  show "\<forall>r. fst (get_auth_me S session st) = Some r \<longrightarrow> is_success r \<longrightarrow>
      (\<exists>u. res_json r = JObj [(''user'', JObj u)] \<and> \<not> has_prop u ''password'')"
    by (auto simp: get_auth_me_def is_success_def respond_def Let_def without_removes
             split: prod.splits outcome.splits option.splits)
  show "is_success (fst (put_profile V S body session st)) \<longrightarrow>
      (\<exists>u. res_json (fst (put_profile V S body session st)) = JObj [(''user'', JObj u)]
           \<and> \<not> has_prop u ''password'')"
    by (auto simp: put_profile_def is_success_def respond_def Let_def without_removes
             split: prod.splits outcome.splits option.splits)
  show "\<forall>r. fst (get_users S st) = Some r \<longrightarrow> is_success r \<longrightarrow>
      (\<exists>us. res_json r = JObj [(''users'', JArr (map JObj us))]
            \<and> (\<forall>u \<in> set us. \<not> has_prop u ''password''))"
  proof (intro allI impI)
    fix r
    assume sent: "fst (get_users S st) = Some r" and "is_success r"
    obtain out st1 where call: "getAllUsers S st = (out, st1)"
      by (cases "getAllUsers S st")
    show "\<exists>us. res_json r = JObj [(''users'', JArr (map JObj us))]
            \<and> (\<forall>u \<in> set us. \<not> has_prop u ''password'')"
    proof (cases out)
      case (Throws e)
      with sent call show ?thesis by (simp add: get_users_def)
    next
      case (Returns users)
      with sent call
      have "res_json r = JObj [(''users'', JArr (map JObj (map (without ''password'') users)))]"
        by (auto simp: get_users_def respond_def Let_def)
      moreover have "\<forall>u \<in> set (map (without ''password'') users). \<not> has_prop u ''password''"
        by (simp add: without_removes)
      ultimately show ?thesis by blast
    qed
  qed
qed

text \<open>
  The officer's login succeeds; the stored document has a password, the user object of the
  response has none.
\<close>

theorem success_responses_have_no_password_witness:
  "is_success (fst (post_auth_login accept_all spec_storage
       [(''username'', JStr ''jdoe''), (''password'', JStr ''hunter2'')] [] demo_store))
   \<and> res_json (fst (post_auth_login accept_all spec_storage
       [(''username'', JStr ''jdoe''), (''password'', JStr ''hunter2'')] [] demo_store))
      = JObj [(''user'', JObj (without ''password'' officer_user))]
   \<and> has_prop officer_user ''password''
   \<and> \<not> has_prop (without ''password'' officer_user) ''password''"
proof -
  let ?r = "fst (post_auth_login accept_all spec_storage
       [(''username'', JStr ''jdoe''), (''password'', JStr ''hunter2'')] [] demo_store)"
  have ok: "is_success ?r"
    by (simp add: demo_simps post_auth_login_def is_success_def Let_def)
  have shape: "res_json ?r = JObj [(''user'', JObj (without ''password'' officer_user))]"
    by (simp add: demo_simps post_auth_login_def Let_def)
  from success_responses_have_no_password
    [of accept_all spec_storage "[(''username'', JStr ''jdoe''), (''password'', JStr ''hunter2'')]"
        "[]" demo_store]
  have "\<exists>u. res_json ?r = JObj [(''user'', JObj u)] \<and> \<not> has_prop u ''password''"
    using ok by blast
  with shape have "\<not> has_prop (without ''password'' officer_user) ''password''"
    by simp
  moreover have "has_prop officer_user ''password''"
    by (simp add: has_prop_def officer_user_def)
  ultimately show ?thesis using ok shape by simp
qed

section \<open>Deleting users\<close>

text \<open>
  Claim C5. When the route parameter of \<^verbatim>\<open>DELETE /api/users/:id\<close> parses to 1 the
  response is 400 and the store is the one before the request, so user 1 still exists.
  For every other parameter the handler calls \<^verbatim>\<open>deleteUser\<close>: the response is 200 when
  the call returns and 404 when it throws. This holds for every storage.
\<close>

theorem delete_user_protects_identifier_one:
  "(parseInt id_param = JNum 1 \<longrightarrow>
      delete_user S id_param st = (respond 400 (message ''Cannot delete admin account''), st))
   \<and> (parseInt id_param \<noteq> JNum 1 \<longrightarrow>
      (\<exists>st1. deleteUser S (parseInt id_param) st = (Returns (), st1)
          \<and> delete_user S id_param st = (respond 200 (message ''User deleted successfully''), st1))
      \<or> (\<exists>e st1. deleteUser S (parseInt id_param) st = (Throws e, st1)
          \<and> delete_user S id_param st = (respond 404 (message ''User not found''), st1)))"
proof (intro conjI impI)
  assume "parseInt id_param = JNum 1"
  then show "delete_user S id_param st = (respond 400 (message ''Cannot delete admin account''), st)"
    by (simp add: delete_user_def)
next
  assume other: "parseInt id_param \<noteq> JNum 1"
  obtain out st1 where call: "deleteUser S (parseInt id_param) st = (out, st1)"
    by (cases "deleteUser S (parseInt id_param) st")
  show "(\<exists>st1. deleteUser S (parseInt id_param) st = (Returns (), st1)
          \<and> delete_user S id_param st = (respond 200 (message ''User deleted successfully''), st1))
      \<or> (\<exists>e st1. deleteUser S (parseInt id_param) st = (Throws e, st1)
          \<and> delete_user S id_param st = (respond 404 (message ''User not found''), st1))"
  proof (cases out)
    case (Throws e)
    with other call show ?thesis by (simp add: delete_user_def strict_eq_num)
  next
    case (Returns u)
    with other call show ?thesis by (simp add: delete_user_def strict_eq_num)
  qed
qed

text \<open>
  On the small store: deleting user 1 is refused and the administrator is still there,
  deleting user 2 succeeds and the officer is gone, deleting user 7 finds nothing.
\<close>

theorem delete_user_protects_identifier_one_witness:
  "parseInt ''1'' = JNum 1
   \<and> delete_user spec_storage ''1'' demo_store =
       (respond 400 (message ''Cannot delete admin account''), demo_store)
   \<and> fst (getUser spec_storage (JNum 1) demo_store) = Returns (Some admin_user)
   \<and> parseInt ''2'' = JNum 2
   \<and> res_status (fst (delete_user spec_storage ''2'' demo_store)) = 200
   \<and> fst (getUser spec_storage (JNum 2) (snd (delete_user spec_storage ''2'' demo_store))) = Returns None
   \<and> parseInt ''7'' = JNum 7
   \<and> res_status (fst (delete_user spec_storage ''7'' demo_store)) = 404"
proof -
  have one: "parseInt ''1'' = JNum 1" by (simp add: parse_simps)
  from delete_user_protects_identifier_one[of "''1''" spec_storage demo_store] one
  have "delete_user spec_storage ''1'' demo_store =
       (respond 400 (message ''Cannot delete admin account''), demo_store)"
    by blast
  moreover have "fst (getUser spec_storage (JNum 1) demo_store) = Returns (Some admin_user)"
    by (simp add: demo_simps)
  moreover have "parseInt ''2'' = JNum 2" "parseInt ''7'' = JNum 7"
    by (simp_all add: parse_simps)
  moreover have "res_status (fst (delete_user spec_storage ''2'' demo_store)) = 200"
    by (simp add: delete_user_def parse_simps demo_simps)
  moreover have "fst (getUser spec_storage (JNum 2) (snd (delete_user spec_storage ''2'' demo_store))) = Returns None"
    by (simp add: delete_user_def parse_simps demo_simps)
  moreover have "res_status (fst (delete_user spec_storage ''7'' demo_store)) = 404"
    by (simp add: delete_user_def parse_simps demo_simps)
  ultimately show ?thesis using one by simp
qed


section \<open>Profile update without a session\<close>

text \<open>
  Claim C10. When the session of a \<^verbatim>\<open>PUT /api/profile\<close> request carries no user
  identifier, the handler does what it does for the session of user 1: the same response
  and the same store, the store being the one \<^verbatim>\<open>updateUser(1, updates)\<close> leaves. The
  response is never 401. This holds for every validator and every storage.
\<close>

theorem profile_without_session_updates_user_one:
  assumes "\<not> truthy (get_prop session ''userId'')"
  shows "put_profile V S body session st = put_profile V S body [(''userId'', JNum 1)] st
         \<and> res_status (fst (put_profile V S body session st)) \<noteq> 401
         \<and> (\<forall>updates. updateProfileSchema V body = Returns updates \<longrightarrow>
              snd (put_profile V S body session st) = snd (updateUser S (JNum 1) updates st))"
  using assms
  by (auto simp: put_profile_def or_else_def get_prop_def respond_def Let_def
           split: prod.splits outcome.splits option.splits)

text \<open>
  On the small store, a request without a session changes the e-mail address of the
  administrator, user 1, and of nobody else.
\<close>

theorem profile_without_session_updates_user_one_witness:
  "\<not> truthy (get_prop [] ''userId'')
   \<and> put_profile accept_all spec_storage [(''email'', JStr ''chief@police.gov'')] [] demo_store
       = put_profile accept_all spec_storage [(''email'', JStr ''chief@police.gov'')]
           [(''userId'', JNum 1)] demo_store
   \<and> res_status (fst (put_profile accept_all spec_storage [(''email'', JStr ''chief@police.gov'')] []
        demo_store)) = 200
   \<and> map (\<lambda>u. get_prop u ''email'')
        (docs (snd (put_profile accept_all spec_storage [(''email'', JStr ''chief@police.gov'')] []
           demo_store)) Users)
       = [JStr ''chief@police.gov'', JStr ''jdoe@police.gov'']"
proof -
  have nosession: "\<not> truthy (get_prop [] ''userId'')" by (simp add: get_prop_def)
  note same = profile_without_session_updates_user_one[OF nosession, of accept_all spec_storage
      "[(''email'', JStr ''chief@police.gov'')]" demo_store]
  have "res_status (fst (put_profile accept_all spec_storage [(''email'', JStr ''chief@police.gov'')] []
        demo_store)) = 200"
    by (simp add: put_profile_def demo_simps or_else_def merge_fields_def replace_doc_def Let_def)
  moreover have "map (\<lambda>u. get_prop u ''email'')
        (docs (snd (put_profile accept_all spec_storage [(''email'', JStr ''chief@police.gov'')] []
           demo_store)) Users)
       = [JStr ''chief@police.gov'', JStr ''jdoe@police.gov'']"
    by (simp add: put_profile_def demo_simps or_else_def merge_fields_def replace_doc_def Let_def)
  ultimately show ?thesis using same nosession by simp
qed

section \<open>The creator of a case, a licence plate and a report\<close>

text \<open>
  Claim C9. For every validator and every storage, the document that
  \<^verbatim>\<open>POST /api/cases\<close>, \<^verbatim>\<open>POST /api/license-plates\<close> and \<^verbatim>\<open>POST /api/reports\<close> hand to
  the storage carries 1 in \<open>createdById\<close>, \<open>addedById\<close> and \<open>requestedBy\<close>, whatever
  the validated body holds there; the handlers do not read the session. On the store of
  the specification, every success response returns a document with that field equal to 1,
  and this document is the one appended to the collection.
\<close>

theorem creator_reference_is_always_one:
  "(\<forall>caseData. insertCaseSchema V body = Returns caseData \<longrightarrow>
      (\<exists>doc. get_prop doc ''createdById'' = JNum 1
         \<and> post_cases V S body st =
             (case createCase S doc st of
                (Throws e, st1) \<Rightarrow> (respond 400 (message ''Invalid input''), st1)
              | (Returns newCase, st1) \<Rightarrow> (respond 201 (JObj [(''case'', JObj newCase)]), st1))))
   \<and> (\<forall>plateData. insertLicensePlateSchema V body = Returns plateData \<longrightarrow>
      (\<exists>doc. get_prop doc ''addedById'' = JNum 1
         \<and> post_license_plates V S body st =
             (case createLicensePlate S doc st of
                (Throws e, st1) \<Rightarrow> (respond 400 (message ''Invalid input''), st1)
              | (Returns newPlate, st1) \<Rightarrow>
                  (respond 201 (JObj [(''licensePlate'', JObj newPlate)]), st1))))
   \<and> (\<forall>reportData. insertReportSchema V body = Returns reportData \<longrightarrow>
      (\<exists>doc. get_prop doc ''requestedBy'' = JNum 1
         \<and> post_reports V S body st =
             (case createReport S doc st of
                (Throws e, st1) \<Rightarrow> (respond 400 (message ''Invalid report data''), st1)
              | (Returns newReport, st1) \<Rightarrow> (respond 201 (JObj newReport), st1))))
   \<and> (is_success (fst (post_cases V spec_storage body s)) \<longrightarrow>
      (\<exists>c. res_json (fst (post_cases V spec_storage body s)) = JObj [(''case'', JObj c)]
         \<and> get_prop c ''createdById'' = JNum 1
         \<and> docs (snd (post_cases V spec_storage body s)) Cases = docs s Cases @ [c]))
   \<and> (is_success (fst (post_license_plates V spec_storage body s)) \<longrightarrow>
      (\<exists>c. res_json (fst (post_license_plates V spec_storage body s)) = JObj [(''licensePlate'', JObj c)]
         \<and> get_prop c ''addedById'' = JNum 1
         \<and> docs (snd (post_license_plates V spec_storage body s)) LicensePlates
             = docs s LicensePlates @ [c]))
   \<and> (is_success (fst (post_reports V spec_storage body s)) \<longrightarrow>
      (\<exists>c. res_json (fst (post_reports V spec_storage body s)) = JObj c
         \<and> get_prop c ''requestedBy'' = JNum 1
         \<and> docs (snd (post_reports V spec_storage body s)) Reports = docs s Reports @ [c]))"
proof (intro conjI allI impI)
  fix caseData
  assume "insertCaseSchema V body = Returns caseData"
  then have "post_cases V S body st =
      (case createCase S (with_prop caseData ''createdById'' (JNum 1)) st of
         (Throws e, st1) \<Rightarrow> (respond 400 (message ''Invalid input''), st1)
       | (Returns newCase, st1) \<Rightarrow> (respond 201 (JObj [(''case'', JObj newCase)]), st1))"
    by (simp add: post_cases_def)
  moreover have "get_prop (with_prop caseData ''createdById'' (JNum 1)) ''createdById'' = JNum 1"
    by (simp add: get_prop_with_prop)
  ultimately show "\<exists>doc. get_prop doc ''createdById'' = JNum 1
         \<and> post_cases V S body st =
             (case createCase S doc st of
                (Throws e, st1) \<Rightarrow> (respond 400 (message ''Invalid input''), st1)
              | (Returns newCase, st1) \<Rightarrow> (respond 201 (JObj [(''case'', JObj newCase)]), st1))"
    by blast
next
  fix plateData
  assume "insertLicensePlateSchema V body = Returns plateData"
  then have "post_license_plates V S body st =
      (case createLicensePlate S (with_prop plateData ''addedById'' (JNum 1)) st of
         (Throws e, st1) \<Rightarrow> (respond 400 (message ''Invalid input''), st1)
       | (Returns newPlate, st1) \<Rightarrow>
           (respond 201 (JObj [(''licensePlate'', JObj newPlate)]), st1))"
    by (simp add: post_license_plates_def)
  moreover have "get_prop (with_prop plateData ''addedById'' (JNum 1)) ''addedById'' = JNum 1"
    by (simp add: get_prop_with_prop)
  ultimately show "\<exists>doc. get_prop doc ''addedById'' = JNum 1
         \<and> post_license_plates V S body st =
             (case createLicensePlate S doc st of
                (Throws e, st1) \<Rightarrow> (respond 400 (message ''Invalid input''), st1)
              | (Returns newPlate, st1) \<Rightarrow>
                  (respond 201 (JObj [(''licensePlate'', JObj newPlate)]), st1))"
    by blast
next
  fix reportData
  assume "insertReportSchema V body = Returns reportData"
  then have "post_reports V S body st =
      (case createReport S (with_prop reportData ''requestedBy'' (JNum 1)) st of
         (Throws e, st1) \<Rightarrow> (respond 400 (message ''Invalid report data''), st1)
       | (Returns newReport, st1) \<Rightarrow> (respond 201 (JObj newReport), st1))"
    by (simp add: post_reports_def)
  moreover have "get_prop (with_prop reportData ''requestedBy'' (JNum 1)) ''requestedBy'' = JNum 1"
    by (simp add: get_prop_with_prop)
  ultimately show "\<exists>doc. get_prop doc ''requestedBy'' = JNum 1
         \<and> post_reports V S body st =
             (case createReport S doc st of
                (Throws e, st1) \<Rightarrow> (respond 400 (message ''Invalid report data''), st1)
              | (Returns newReport, st1) \<Rightarrow> (respond 201 (JObj newReport), st1))"
    by blast
next
  assume "is_success (fst (post_cases V spec_storage body s))"
  then show "\<exists>c. res_json (fst (post_cases V spec_storage body s)) = JObj [(''case'', JObj c)]
         \<and> get_prop c ''createdById'' = JNum 1
         \<and> docs (snd (post_cases V spec_storage body s)) Cases = docs s Cases @ [c]"
    by (cases "insertCaseSchema V body")
       (simp_all add: post_cases_def spec_storage_def store_create_def is_success_def respond_def
          Let_def get_prop_stamp_new get_prop_with_prop)
next
  assume "is_success (fst (post_license_plates V spec_storage body s))"
  then show "\<exists>c. res_json (fst (post_license_plates V spec_storage body s))
            = JObj [(''licensePlate'', JObj c)]
         \<and> get_prop c ''addedById'' = JNum 1
         \<and> docs (snd (post_license_plates V spec_storage body s)) LicensePlates
             = docs s LicensePlates @ [c]"
    by (cases "insertLicensePlateSchema V body")
       (simp_all add: post_license_plates_def spec_storage_def store_create_def is_success_def
          respond_def Let_def get_prop_stamp_new get_prop_with_prop)
next
  assume "is_success (fst (post_reports V spec_storage body s))"
  then show "\<exists>c. res_json (fst (post_reports V spec_storage body s)) = JObj c
         \<and> get_prop c ''requestedBy'' = JNum 1
         \<and> docs (snd (post_reports V spec_storage body s)) Reports = docs s Reports @ [c]"
    by (cases "insertReportSchema V body")
       (simp_all add: post_reports_def spec_storage_def store_create_def is_success_def
          respond_def Let_def get_prop_stamp_new get_prop_with_prop)
qed

text \<open>A client that sends \<open>createdById: 99\<close> gets a case created by user 1.\<close>

theorem creator_reference_is_always_one_witness:
  "get_prop [(''title'', JStr ''Burglary''), (''createdById'', JNum 99)] ''createdById'' = JNum 99
   \<and> is_success (fst (post_cases accept_all spec_storage
         [(''title'', JStr ''Burglary''), (''createdById'', JNum 99)] demo_store))
   \<and> map (\<lambda>c. get_prop c ''createdById'')
        (docs (snd (post_cases accept_all spec_storage
           [(''title'', JStr ''Burglary''), (''createdById'', JNum 99)] demo_store)) Cases)
       = [JNum 1]"
proof -
  let ?body = "[(''title'', JStr ''Burglary''), (''createdById'', JNum 99)]"
  let ?out = "post_cases accept_all spec_storage ?body demo_store"
  have ok: "is_success (fst ?out)"
    by (simp add: post_cases_def demo_simps is_success_def stamp_new_def Let_def)
  have before: "docs demo_store Cases = []"
    by (simp add: demo_store_def)
  from creator_reference_is_always_one[of accept_all ?body spec_storage demo_store demo_store] ok
  obtain c where "get_prop c ''createdById'' = JNum 1"
    and "docs (snd ?out) Cases = docs demo_store Cases @ [c]"
    by blast
  with before have "map (\<lambda>c. get_prop c ''createdById'') (docs (snd ?out) Cases) = [JNum 1]"
    by simp
  moreover have "get_prop ?body ''createdById'' = JNum 99"
    by (simp add: get_prop_def)
  ultimately show ?thesis using ok by simp
qed

section \<open>The file type of a geofile\<close>



section \<open>The status of a police vehicle\<close>

text \<open>
  Claim C6. \<^verbatim>\<open>PATCH /api/police-vehicles/:id/status\<close> with a status that is not one of
  \<open>available\<close>, \<open>on_patrol\<close>, \<open>responding\<close>, \<open>out_of_service\<close> is answered with 400 and the
  store is the one before the request (for every storage). With a status of the set and a
  vehicle that the store of the specification holds under the identifier, the response is
  200 with the updated vehicle, and \<^verbatim>\<open>GET /api/police-vehicles/:id\<close> afterwards returns that
  vehicle, whose status is the new one.
\<close>

theorem vehicle_status_patch_checks_status:
  "(\<not> array_includes vehicle_statuses (get_prop body ''status'') \<longrightarrow>
      patch_police_vehicle_status S id_param body st =
        (respond 400 (message
           ''Invalid status. Must be one of: available, on_patrol, responding, out_of_service''), st))
   \<and> (\<forall>s v. get_prop body ''status'' = JStr s \<longrightarrow> s \<in> set vehicle_statuses \<longrightarrow>
         find_by ''id'' (parseInt id_param) (docs s0 Vehicles) = Some v \<longrightarrow>
      (\<exists>v'. fst (patch_police_vehicle_status spec_storage id_param body s0) = respond 200 (JObj v')
           \<and> get_prop v' ''status'' = JStr s
           \<and> fst (get_police_vehicle spec_storage id_param
                    (snd (patch_police_vehicle_status spec_storage id_param body s0)))
               = respond 200 (JObj v')))"
proof (intro conjI allI impI)
  assume "\<not> array_includes vehicle_statuses (get_prop body ''status'')"
  then show "patch_police_vehicle_status S id_param body st =
        (respond 400 (message
           ''Invalid status. Must be one of: available, on_patrol, responding, out_of_service''), st)"
    by (simp add: patch_police_vehicle_status_def Let_def)
next
  fix s v
  assume sent: "get_prop body ''status'' = JStr s" and ok: "s \<in> set vehicle_statuses"
    and found: "find_by ''id'' (parseInt id_param) (docs s0 Vehicles) = Some v"
  let ?v' = "with_prop (merge_fields v [(''status'', JStr s)]) ''updatedAt'' (JDate (next_stamp s0 v))"
  let ?out = "patch_police_vehicle_status spec_storage id_param body s0"
  have call: "updateVehicleStatus spec_storage (parseInt id_param) (JStr s) s0
      = store_update Vehicles (parseInt id_param) [(''status'', JStr s)] s0"
    by (simp add: spec_storage_def)
  have run: "?out = (respond 200 (JObj ?v'),
      snd (store_update Vehicles (parseInt id_param) [(''status'', JStr s)] s0))"
    using sent ok status_nonempty[OF ok] found
    by (simp add: patch_police_vehicle_status_def Let_def call store_update_found doc_json_def)
  have status: "get_prop ?v' ''status'' = JStr s"
    by (simp add: get_prop_with_prop merge_fields_def)
  have after: "snd ?out = snd (store_update Vehicles (parseInt id_param) [(''status'', JStr s)] s0)"
    by (simp add: run)
  have lookup: "getPoliceVehicle spec_storage = store_get Vehicles"
    by (simp add: spec_storage_def)
  have "getPoliceVehicle spec_storage (parseInt id_param) (snd ?out)
      = (Returns (Some ?v'), snd ?out)"
    unfolding lookup after using found by (simp add: store_get_def store_update_lookup)
  then have "fst (get_police_vehicle spec_storage id_param (snd ?out)) = respond 200 (JObj ?v')"
    by (simp add: get_police_vehicle_def)
  with run status show "\<exists>v'. fst ?out = respond 200 (JObj v')
           \<and> get_prop v' ''status'' = JStr s
           \<and> fst (get_police_vehicle spec_storage id_param (snd ?out)) = respond 200 (JObj v')"
    by auto
qed

text \<open>Vehicle 4: \<^verbatim>\<open>flying\<close> is refused, \<^verbatim>\<open>on_patrol\<close> is stored and read back.\<close>

theorem vehicle_status_patch_checks_status_witness:
  "\<not> array_includes vehicle_statuses (get_prop [(''status'', JStr ''flying'')] ''status'')
   \<and> patch_police_vehicle_status spec_storage ''4'' [(''status'', JStr ''flying'')] fleet_store =
        (respond 400 (message
           ''Invalid status. Must be one of: available, on_patrol, responding, out_of_service''),
         fleet_store)
   \<and> res_status (fst (patch_police_vehicle_status spec_storage ''4''
         [(''status'', JStr ''on_patrol'')] fleet_store)) = 200
   \<and> json_prop (res_json (fst (get_police_vehicle spec_storage ''4''
         (snd (patch_police_vehicle_status spec_storage ''4''
            [(''status'', JStr ''on_patrol'')] fleet_store))))) ''status'' = JStr ''on_patrol''"
proof -
  note main = vehicle_status_patch_checks_status
  let ?bad = "[(''status'', JStr ''flying'')]"
  let ?good = "[(''status'', JStr ''on_patrol'')]"
  have bad: "\<not> array_includes vehicle_statuses (get_prop ?bad ''status'')"
    by (simp add: get_prop_def vehicle_statuses_def)
  from main[of ?bad spec_storage "''4''" fleet_store] bad
  have refused: "patch_police_vehicle_status spec_storage ''4'' ?bad fleet_store =
        (respond 400 (message
           ''Invalid status. Must be one of: available, on_patrol, responding, out_of_service''),
         fleet_store)"
    by blast
  have sent: "get_prop ?good ''status'' = JStr ''on_patrol''"
    by (simp add: get_prop_def)
  have ok: "''on_patrol'' \<in> set vehicle_statuses"
    by (simp add: vehicle_statuses_def)
  have found: "find_by ''id'' (parseInt ''4'') (docs fleet_store Vehicles) = Some patrol_car"
    by (simp add: parse_simps find_by_def fleet_store_def patrol_car_def get_prop_def)
  from main[of ?good spec_storage "''4''" fleet_store fleet_store] sent ok found
  obtain v' where
    "fst (patch_police_vehicle_status spec_storage ''4'' ?good fleet_store) = respond 200 (JObj v')"
    and "get_prop v' ''status'' = JStr ''on_patrol''"
    and "fst (get_police_vehicle spec_storage ''4''
           (snd (patch_police_vehicle_status spec_storage ''4'' ?good fleet_store)))
         = respond 200 (JObj v')"
    by blast
  then have "res_status (fst (patch_police_vehicle_status spec_storage ''4'' ?good fleet_store)) = 200"
    and "json_prop (res_json (fst (get_police_vehicle spec_storage ''4''
         (snd (patch_police_vehicle_status spec_storage ''4'' ?good fleet_store))))) ''status''
         = JStr ''on_patrol''"
    by (simp_all add: respond_def json_prop_def)
  with bad refused show ?thesis by simp
qed

section \<open>Updates\<close>



section \<open>Defaults of OB entries\<close>




end
